theory Spec2Isabelle
  imports Complex_Main "HOL-Library.AList"
begin

section \<open>Python values as the analyzer sees them\<close>

text \<open>
  The values that \<^verbatim>\<open>json.load\<close> can produce. A Python \<^verbatim>\<open>dict\<close> keeps its items in
  insertion order, so it is an association list; the keys of a dict are distinct, and the
  statements that depend on it say so. Python floats are modelled by exact
  rationals: finite values with exact arithmetic. NaN, the infinities, overflow and the
  rounding error of IEEE doubles are outside this model.
\<close>

datatype json =
    JNull
  | JBool bool
  | JInt int
  | JFloat rat
  | JStr string
  | JList "json list"
  | JDict "(string \<times> json) list"

datatype py_error = AttributeError | TypeError | ValueError | ZeroDivisionError

text \<open>A metrics dictionary \<^verbatim>\<open>Dict[str, float]\<close>.\<close>

type_synonym metrics = "(string \<times> rat) list"

text \<open>\<^verbatim>\<open>d.get(k, default)\<close> on a dict.\<close>

definition dict_get :: "(string \<times> 'v) list \<Rightarrow> string \<Rightarrow> 'v \<Rightarrow> 'v" where
  "dict_get d k dflt = (case map_of d k of None \<Rightarrow> dflt | Some v \<Rightarrow> v)"

text \<open>Truth value of an object in a condition.\<close>

fun truthy :: "json \<Rightarrow> bool" where
  "truthy JNull = False"
| "truthy (JBool b) = b"
| "truthy (JInt n) = (n \<noteq> 0)"
| "truthy (JFloat r) = (r \<noteq> 0)"
| "truthy (JStr s) = (s \<noteq> [])"
| "truthy (JList xs) = (xs \<noteq> [])"
| "truthy (JDict d) = (d \<noteq> [])"

text \<open>
  What a \<^verbatim>\<open>for\<close> loop over the object visits: the elements of a list, the characters of
  a string, the keys of a dict; anything else is not iterable.
\<close>

fun py_iter :: "json \<Rightarrow> py_error + json list" where
  "py_iter (JList xs) = Inr xs"
| "py_iter (JStr s) = Inr (map (\<lambda>c. JStr [c]) s)"
| "py_iter (JDict d) = Inr (map (\<lambda>kv. JStr (fst kv)) d)"
| "py_iter JNull = Inl TypeError"
| "py_iter (JBool b) = Inl TypeError"
| "py_iter (JInt n) = Inl TypeError"
| "py_iter (JFloat r) = Inl TypeError"

text \<open>\<^verbatim>\<open>len(x)\<close>.\<close>

fun py_len :: "json \<Rightarrow> py_error + nat" where
  "py_len (JList xs) = Inr (length xs)"
| "py_len (JStr s) = Inr (length s)"
| "py_len (JDict d) = Inr (length d)"
| "py_len JNull = Inl TypeError"
| "py_len (JBool b) = Inl TypeError"
| "py_len (JInt n) = Inl TypeError"
| "py_len (JFloat r) = Inl TypeError"

text \<open>\<^verbatim>\<open>isinstance(x, (int, float))\<close>; \<^verbatim>\<open>bool\<close> is a subclass of \<^verbatim>\<open>int\<close>.\<close>

fun is_number :: "json \<Rightarrow> bool" where
  "is_number (JBool b) = True"
| "is_number (JInt n) = True"
| "is_number (JFloat r) = True"
| "is_number JNull = False"
| "is_number (JStr s) = False"
| "is_number (JList xs) = False"
| "is_number (JDict d) = False"

text \<open>
  \<^verbatim>\<open>float(x)\<close>. The conversion of a string is Python's own parser, taken as the
  parameter \<open>pf\<close> (\<open>None\<close> where \<^verbatim>\<open>float\<close> raises \<^verbatim>\<open>ValueError\<close>).
\<close>

fun py_float :: "(string \<Rightarrow> rat option) \<Rightarrow> json \<Rightarrow> py_error + rat" where
  "py_float pf (JBool b) = Inr (if b then 1 else 0)"
| "py_float pf (JInt n) = Inr (of_int n)"
| "py_float pf (JFloat r) = Inr r"
| "py_float pf (JStr s) = (case pf s of None \<Rightarrow> Inl ValueError | Some r \<Rightarrow> Inr r)"
| "py_float pf JNull = Inl TypeError"
| "py_float pf (JList xs) = Inl TypeError"
| "py_float pf (JDict d) = Inl TypeError"

text \<open>\<^verbatim>\<open>str.lower()\<close> on the ASCII letters.\<close>

definition lower_char :: "char \<Rightarrow> char" where
  "lower_char c =
     (if 65 \<le> (of_char c :: nat) \<and> (of_char c :: nat) \<le> 90
      then char_of ((of_char c :: nat) + 32) else c)"

definition lower :: "string \<Rightarrow> string" where
  "lower s = map lower_char s"

text \<open>
  The test \<^verbatim>\<open>str(v).lower() == w\<close> for one of the button words \<open>w\<close> of the extractor
  (\<^verbatim>\<open>flip\<close>, \<^verbatim>\<open>double_jump\<close>, \<^verbatim>\<open>jump_flip\<close>, \<^verbatim>\<open>boost\<close>). For a string \<^verbatim>\<open>str\<close> is the
  identity. For every other JSON value \<^verbatim>\<open>str(v).lower()\<close> is \<^verbatim>\<open>none\<close>, \<^verbatim>\<open>true\<close>,
  \<^verbatim>\<open>false\<close>, the text of a number, or a text that starts with a bracket or a brace,
  hence none of these words.
\<close>

fun str_lower_is :: "json \<Rightarrow> string \<Rightarrow> bool" where
  "str_lower_is (JStr s) w = (lower s = w)"
| "str_lower_is JNull w = False"
| "str_lower_is (JBool b) w = False"
| "str_lower_is (JInt n) w = False"
| "str_lower_is (JFloat r) w = False"
| "str_lower_is (JList xs) w = False"
| "str_lower_is (JDict d) w = False"

text \<open>
  \<^verbatim>\<open>round(x, 3)\<close>: the nearest multiple of one thousandth, a tie going to the even one.
\<close>

definition round_half_even :: "rat \<Rightarrow> int" where
  "round_half_even x =
     (let f = \<lfloor>x\<rfloor>; d = x - of_int f
      in if d < 1 / 2 then f
         else if 1 / 2 < d then f + 1
         else if even f then f else f + 1)"

definition py_round3 :: "rat \<Rightarrow> rat" where
  "py_round3 x = of_int (round_half_even (x * 1000)) / 1000"

section \<open>Metrics extractor: \<^verbatim>\<open>parse_match_data\<close>\<close>

definition zero_metrics :: metrics where
  "zero_metrics =
     [(''boost_usage'', 0), (''flip_count'', 0), (''shots'', 0), (''goals'', 0)]"

text \<open>
  One pass of the loop body over an event, on the state
  \<open>(flip_count, boost_frames)\<close>. Inside the guard \<^verbatim>\<open>boost_frames is None\<close> the expression
  \<^verbatim>\<open>(boost_frames or 0) + 1\<close> is \<open>0 + 1\<close>.
\<close>

fun event_step :: "json \<Rightarrow> int \<times> json \<Rightarrow> int \<times> json" where
  "event_step (JDict e) (flip_count, boost_frames) =
     (let btn = dict_get e ''button'' (JStr '''');
          action = dict_get e ''action'' (JStr '''');
          flip_count' =
            (if str_lower_is btn ''flip'' \<or> str_lower_is btn ''double_jump''
                \<or> str_lower_is btn ''jump_flip''
                \<or> str_lower_is action ''flip'' \<or> str_lower_is action ''double_jump''
             then flip_count + 1 else flip_count);
          boost_frames' =
            (if boost_frames = JNull
             then (if str_lower_is btn ''boost'' \<or> str_lower_is action ''boost''
                   then JInt (0 + 1) else boost_frames)
             else boost_frames)
      in (flip_count', boost_frames'))"
| "event_step ev st = st"

text \<open>The whole \<^verbatim>\<open>for event in events\<close> loop.\<close>

definition events_loop :: "json list \<Rightarrow> int \<times> json \<Rightarrow> int \<times> json" where
  "events_loop evs st = fold event_step evs st"

text \<open>
  The boost usage ratio
  \<^verbatim>\<open>float(boost_frames) / float(total_frames) if total_frames else 0.0\<close>:
  the condition is evaluated first, then the numerator, then the denominator.
\<close>

definition boost_ratio :: "(string \<Rightarrow> rat option) \<Rightarrow> json \<Rightarrow> json \<Rightarrow> py_error + rat" where
  "boost_ratio pf boost_frames total_frames =
     (if truthy total_frames
      then (case py_float pf boost_frames of
              Inl e \<Rightarrow> Inl e
            | Inr b \<Rightarrow>
               (case py_float pf total_frames of
                  Inl e \<Rightarrow> Inl e
                | Inr t \<Rightarrow> if t = 0 then Inl ZeroDivisionError else Inr (b / t)))
      else Inr 0)"

text \<open>
  The block \<^verbatim>\<open>flip_count = 0; if events: for event in events: ...\<close>, giving
  \<open>flip_count\<close> and \<open>boost_frames\<close> after it.
\<close>

definition derive_from_events :: "json \<Rightarrow> json \<Rightarrow> py_error + int \<times> json" where
  "derive_from_events events boost_frames =
     (if truthy events
      then (case py_iter events of
              Inl e \<Rightarrow> Inl e
            | Inr evs \<Rightarrow> Inr (events_loop evs (0, boost_frames)))
      else Inr (0, boost_frames))"

text \<open>\<^verbatim>\<open>if total_frames is None: total_frames = max(len(events), 1)\<close>.\<close>

definition default_total_frames :: "json \<Rightarrow> json \<Rightarrow> py_error + json" where
  "default_total_frames events total_frames =
     (if total_frames = JNull
      then (case py_len events of
              Inl e \<Rightarrow> Inl e
            | Inr n \<Rightarrow> Inr (JInt (max (int n) 1)))
      else Inr total_frames)"

text \<open>The body of \<^verbatim>\<open>parse_match_data\<close> after the file has been loaded as \<open>data\<close>.\<close>

definition extract_dict :: "(string \<Rightarrow> rat option) \<Rightarrow> (string \<times> json) list \<Rightarrow> py_error + metrics" where
  "extract_dict pf data =
     (let events = dict_get data ''events'' (JList []);
          boost_frames = dict_get data ''boost_frames'' JNull;
          total_frames = dict_get data ''total_frames'' JNull;
          shots = dict_get data ''shots'' JNull;
          goals = dict_get data ''goals'' JNull
      in case derive_from_events events boost_frames of
           Inl e \<Rightarrow> Inl e
         | Inr (flip_count, boost_frames1) \<Rightarrow>
            (case default_total_frames events total_frames of
               Inl e \<Rightarrow> Inl e
             | Inr total_frames1 \<Rightarrow>
                (let boost_frames2 = (if boost_frames1 = JNull then JInt 0 else boost_frames1);
                     shots1 = (if is_number shots then shots else JInt 0);
                     goals1 = (if is_number goals then goals else JInt 0)
                 in case boost_ratio pf boost_frames2 total_frames1 of
                      Inl e \<Rightarrow> Inl e
                    | Inr boost_usage_ratio \<Rightarrow>
                       (case py_float pf shots1 of
                          Inl e \<Rightarrow> Inl e
                        | Inr s \<Rightarrow>
                           (case py_float pf goals1 of
                              Inl e \<Rightarrow> Inl e
                            | Inr g \<Rightarrow>
                               Inr [(''boost_usage'', py_round3 boost_usage_ratio),
                                    (''flip_count'', of_int flip_count),
                                    (''shots'', s),
                                    (''goals'', g)])))))"

text \<open>
  \<^verbatim>\<open>parse_match_data\<close>. The argument is what the \<^verbatim>\<open>try\<close> block yields: \<open>None\<close> when
  opening or decoding the file raised, otherwise the decoded value. \<^verbatim>\<open>data.get\<close> exists
  on a dict only.
\<close>

fun parse_match_data :: "(string \<Rightarrow> rat option) \<Rightarrow> json option \<Rightarrow> py_error + metrics" where
  "parse_match_data pf None = Inr zero_metrics"
| "parse_match_data pf (Some (JDict data)) = extract_dict pf data"
| "parse_match_data pf (Some other) = Inl AttributeError"

section \<open>Aggregator: \<^verbatim>\<open>aggregate_user_metrics\<close>\<close>





text \<open>The four metric keys, in the order of every dict literal of the source.\<close>

definition canonical_keys :: "string list" where
  "canonical_keys = [''boost_usage'', ''flip_count'', ''shots'', ''goals'']"

section \<open>Comparator: \<^verbatim>\<open>compute_strengths_and_weaknesses\<close>\<close>

text \<open>
  The loop body for one item of \<^verbatim>\<open>user_metrics\<close> (the key and
  \<^verbatim>\<open>user_metrics[key]\<close>), on the state
  \<open>(strengths, weaknesses, biggest_key, biggest_delta)\<close>.
\<close>

fun compare_step ::
  "metrics \<Rightarrow> string \<times> rat \<Rightarrow> metrics \<times> metrics \<times> string option \<times> rat
     \<Rightarrow> metrics \<times> metrics \<times> string option \<times> rat"
where
  "compare_step streamer_avg (key, user_val) (strengths, weaknesses, biggest_key, biggest_delta) =
     (let avg_val = dict_get streamer_avg key 0;
          delta = user_val - avg_val;
          strengths' =
            (if delta > 0 then AList.update key (py_round3 delta) strengths else strengths);
          weaknesses' =
            (if delta > 0 then weaknesses
             else if delta < 0 then AList.update key (py_round3 (- delta)) weaknesses
             else weaknesses)
      in if \<bar>delta\<bar> > biggest_delta
         then (strengths', weaknesses', Some key, \<bar>delta\<bar>)
         else (strengths', weaknesses', biggest_key, biggest_delta))"

definition compare_loop ::
  "metrics \<Rightarrow> metrics \<Rightarrow> metrics \<times> metrics \<times> string option \<times> rat"
where
  "compare_loop user_metrics streamer_avg =
     fold (compare_step streamer_avg) user_metrics ([], [], None, 0)"

definition compute_strengths_and_weaknesses ::
  "metrics \<Rightarrow> metrics \<Rightarrow> metrics \<times> metrics \<times> string option"
where
  "compute_strengths_and_weaknesses user_metrics streamer_avg =
     (case compare_loop user_metrics streamer_avg of
        (strengths, weaknesses, biggest_key, biggest_delta) \<Rightarrow>
          (strengths, weaknesses, biggest_key))"

text \<open>The delta of one item against the baseline, as the loop body computes it.\<close>

definition delta_of :: "metrics \<Rightarrow> string \<times> rat \<Rightarrow> rat" where
  "delta_of streamer_avg kv = snd kv - dict_get streamer_avg (fst kv) 0"

section \<open>Tip generator: \<^verbatim>\<open>generate_tips\<close>\<close>

definition short_step :: "string \<Rightarrow> string list \<Rightarrow> string list" where
  "short_step k short_term =
     (if k = ''boost_usage'' then
        short_term @ [''Work on managing your boost more efficiently. Try to use small pads to stay stocked.'']
      else if k = ''flip_count'' then
        short_term @ [''Practice aerial control and flipping mechanics in free play to increase your flip count.'']
      else if k = ''shots'' then
        short_term @ [''Focus on taking more shots during matches. Position yourself to create shooting opportunities.'']
      else if k = ''goals'' then
        short_term @ [''Work on finishing plays and accuracy to convert shots into goals.'']
      else short_term)"

definition long_step :: "string \<Rightarrow> string list \<Rightarrow> string list" where
  "long_step k long_term =
     (if k = ''boost_usage'' then
        long_term @ [''Continue to refine your boost management. Use efficient routes to maintain high boost levels.'']
      else if k = ''flip_count'' then
        long_term @ [''Keep practicing advanced movement like wave dashes and flip resets to stay ahead.'']
      else if k = ''shots'' then
        long_term @ [''Maintain your shooting pace; practice different angles and power shots.'']
      else if k = ''goals'' then
        long_term @ [''Keep improving goal conversion by working on placement and deception.'']
      else long_term)"

definition generate_tips :: "metrics \<Rightarrow> metrics \<Rightarrow> string list \<times> string list" where
  "generate_tips strengths weaknesses =
     (fold short_step (map fst weaknesses) [], fold long_step (map fst strengths) [])"

text \<open>
  The advice tables in the words of the specification: each canonical key has one fixed
  short-term and one fixed long-term advice string, any other key has none.
\<close>

definition short_advice :: "string \<Rightarrow> string option" where
  "short_advice k =
     map_of
       [(''boost_usage'', ''Work on managing your boost more efficiently. Try to use small pads to stay stocked.''),
        (''flip_count'', ''Practice aerial control and flipping mechanics in free play to increase your flip count.''),
        (''shots'', ''Focus on taking more shots during matches. Position yourself to create shooting opportunities.''),
        (''goals'', ''Work on finishing plays and accuracy to convert shots into goals.'')] k"

definition long_advice :: "string \<Rightarrow> string option" where
  "long_advice k =
     map_of
       [(''boost_usage'', ''Continue to refine your boost management. Use efficient routes to maintain high boost levels.''),
        (''flip_count'', ''Keep practicing advanced movement like wave dashes and flip resets to stay ahead.''),
        (''shots'', ''Maintain your shooting pace; practice different angles and power shots.''),
        (''goals'', ''Keep improving goal conversion by working on placement and deception.'')] k"

section \<open>Functions used by the statements\<close>





section \<open>Predicates on the input used by the statements\<close>




section \<open>Rounding\<close>






lemma py_round3_third: "py_round3 (1 / 3) = 333 / 1000"
  by code_simp

section \<open>Properties of the extractor\<close>

subsection \<open>What a successful run went through\<close>


















subsection \<open>The worked example\<close>

text \<open>
  Claim C1. The specification's example record, whose events are a flip and two boosts with
  no explicit override, is said to give \<open>boost_frames = 2\<close> and \<open>boost_usage = 0.667\<close>.
  The code returns \<open>boost_usage = 0.333\<close>: the guard \<^verbatim>\<open>if boost_frames is None\<close> is
  true until the first boost event sets \<open>boost_frames\<close> to 1, and false for every later
  event, so at most one boost event is ever counted.
\<close>

theorem extract_example_counts_one_boost:
  "parse_match_data pf
     (Some (JDict [(''events'',
        JList [JDict [(''button'', JStr ''flip'')],
               JDict [(''button'', JStr ''boost'')],
               JDict [(''button'', JStr ''boost'')]])]))
   = Inr [(''boost_usage'', 333 / 1000), (''flip_count'', 1), (''shots'', 0), (''goals'', 0)]"
  by (simp add: extract_dict_def derive_from_events_def default_total_frames_def dict_get_def
      events_loop_def boost_ratio_def py_round3_third lower_def lower_char_def Let_def)

subsection \<open>Failure on data that is not a mapping\<close>

text \<open>
  Claim C2. The extractor is said never to fail. On a file that decodes to a JSON array the
  call \<^verbatim>\<open>data.get\<close>, which stands after the \<^verbatim>\<open>try\<close> block, raises
  \<^verbatim>\<open>AttributeError\<close>, and the exception reaches the caller.
\<close>

theorem extract_raises_on_sequence:
  "parse_match_data pf (Some (JList xs)) = Inl AttributeError"
  by simp

subsection \<open>Range of the boost usage\<close>




subsection \<open>Keys and signs of the result\<close>




section \<open>Properties of the comparator\<close>

subsection \<open>The loop, one item at a time\<close>








lemma compare_step_zero:
  assumes "delta_of sa x = 0" "0 \<le> bd"
  shows "compare_step sa x (s, w, bk, bd) = (s, w, bk, bd)"
  using assms by (cases x) (simp add: delta_of_def Let_def)

lemma fold_compare_step_zero:
  assumes "\<forall>x \<in> set xs. delta_of sa x = 0" "0 \<le> bd"
  shows "fold (compare_step sa) xs (s, w, bk, bd) = (s, w, bk, bd)"
  using assms by (induction xs) (simp_all add: compare_step_zero)

lemma delta_of_self:
  assumes "distinct (map fst x)" "kv \<in> set x"
  shows "delta_of x kv = 0"
proof -
  from assms(2) have "(fst kv, snd kv) \<in> set x" by simp
  then have "map_of x (fst kv) = Some (snd kv)" by (simp only: map_of_eq_Some_iff [OF assms(1)])
  then show ?thesis by (simp add: delta_of_def dict_get_def)
qed

subsection \<open>The largest delta\<close>



subsection \<open>Strengths and weaknesses\<close>



subsection \<open>Comparing a tuple with itself\<close>

text \<open>
  Claim C9. For every metrics dictionary \<open>x\<close> (its keys are distinct, as the keys of a
  dictionary are), comparing \<open>x\<close> with itself gives empty strengths, empty weaknesses and
  no largest-delta key.
\<close>

theorem compare_with_itself:
  assumes "distinct (map fst x)"
  shows "compute_strengths_and_weaknesses x x = ([], [], None)"
proof -
  from assms have "\<forall>kv \<in> set x. delta_of x kv = 0" by (simp add: delta_of_self)
  then have "compare_loop x x = ([], [], None, 0)"
    unfolding compare_loop_def by (simp add: fold_compare_step_zero)
  then show ?thesis by (simp add: compute_strengths_and_weaknesses_def)
qed

text \<open>The theorem at a tuple with four distinct keys.\<close>

theorem compare_with_itself_witness:
  "distinct (map fst [(''boost_usage'', 1 / 2 :: rat), (''flip_count'', 10), (''shots'', 3), (''goals'', 1)])
   \<and> compute_strengths_and_weaknesses
        [(''boost_usage'', 1 / 2), (''flip_count'', 10), (''shots'', 3), (''goals'', 1)]
        [(''boost_usage'', 1 / 2), (''flip_count'', 10), (''shots'', 3), (''goals'', 1)]
      = ([], [], None)"
proof -
  have dist: "distinct (map fst [(''boost_usage'', 1 / 2 :: rat), (''flip_count'', 10), (''shots'', 3), (''goals'', 1)])"
    by simp
  from compare_with_itself [OF dist] dist show ?thesis by (intro conjI)
qed

section \<open>Properties of the aggregator\<close>













section \<open>Properties of the tip generator\<close>

lemma short_step_advice:
  "short_step k acc = acc @ (case short_advice k of None \<Rightarrow> [] | Some a \<Rightarrow> [a])"
  by (simp add: short_step_def short_advice_def)

lemma long_step_advice:
  "long_step k acc = acc @ (case long_advice k of None \<Rightarrow> [] | Some a \<Rightarrow> [a])"
  by (simp add: long_step_def long_advice_def)

lemma fold_short_step:
  "fold short_step ks acc = acc @ List.map_filter short_advice ks"
proof (induction ks arbitrary: acc)
  case Nil
  then show ?case by simp
next
  case (Cons k ks)
  have "fold short_step (k # ks) acc = fold short_step ks (short_step k acc)" by simp
  also have "\<dots> = short_step k acc @ List.map_filter short_advice ks" by (rule Cons.IH)
  also have "\<dots> = acc @ List.map_filter short_advice (k # ks)"
    by (simp add: short_step_advice split: option.splits)
  finally show ?case .
qed

lemma fold_long_step:
  "fold long_step ks acc = acc @ List.map_filter long_advice ks"
proof (induction ks arbitrary: acc)
  case Nil
  then show ?case by simp
next
  case (Cons k ks)
  have "fold long_step (k # ks) acc = fold long_step ks (long_step k acc)" by simp
  also have "\<dots> = long_step k acc @ List.map_filter long_advice ks" by (rule Cons.IH)
  also have "\<dots> = acc @ List.map_filter long_advice (k # ks)"
    by (simp add: long_step_advice split: option.splits)
  finally show ?case .
qed

lemma advice_defined:
  "k \<in> set canonical_keys \<Longrightarrow> short_advice k \<noteq> None \<and> long_advice k \<noteq> None"
  by (auto simp: canonical_keys_def short_advice_def long_advice_def)

lemma advice_undefined:
  "k \<notin> set canonical_keys \<Longrightarrow> short_advice k = None \<and> long_advice k = None"
  by (simp add: canonical_keys_def short_advice_def long_advice_def)

text \<open>
  Claim C8. The short-term tips are the advice strings of the weakness keys and the
  long-term tips those of the strength keys, in the order of the keys in the two
  dictionaries; each canonical key has exactly one advice string in each table and every
  other key has none, so it adds no tip. Weaknesses that hold the key \<open>shots\<close> alone
  give exactly the one shots advice.
\<close>

theorem generate_tips_follows_tables:
  "generate_tips strengths weaknesses
     = (List.map_filter short_advice (map fst weaknesses),
        List.map_filter long_advice (map fst strengths))
   \<and> (\<forall>k \<in> set canonical_keys. short_advice k \<noteq> None \<and> long_advice k \<noteq> None)
   \<and> (\<forall>k. k \<notin> set canonical_keys \<longrightarrow> short_advice k = None \<and> long_advice k = None)
   \<and> fst (generate_tips strengths [(''shots'', v)])
       = [''Focus on taking more shots during matches. Position yourself to create shooting opportunities.'']"
proof -
  have "generate_tips strengths weaknesses
     = (List.map_filter short_advice (map fst weaknesses),
        List.map_filter long_advice (map fst strengths))"
    by (simp add: generate_tips_def fold_short_step fold_long_step)
  moreover have "fst (generate_tips strengths [(''shots'', v)])
       = [''Focus on taking more shots during matches. Position yourself to create shooting opportunities.'']"
    by (simp add: generate_tips_def short_step_def)
  ultimately show ?thesis using advice_defined advice_undefined by blast
qed

text \<open>
  The theorem at one strength and two weaknesses, one of them under a key that is not
  canonical.
\<close>

theorem generate_tips_follows_tables_witness:
  "generate_tips [(''boost_usage'', 1 / 10)] [(''shots'', 2), (''speed'', 1)]
     = ([''Focus on taking more shots during matches. Position yourself to create shooting opportunities.''],
        [''Continue to refine your boost management. Use efficient routes to maintain high boost levels.''])
   \<and> ''shots'' \<in> set canonical_keys
   \<and> short_advice ''shots'' \<noteq> None
   \<and> ''speed'' \<notin> set canonical_keys
   \<and> short_advice ''speed'' = None"
proof -
  note inst = generate_tips_follows_tables [of "[(''boost_usage'', 1 / 10)]" "[(''shots'', 2), (''speed'', 1)]" 0]
  have k1: "''shots'' \<in> set canonical_keys" and k2: "''speed'' \<notin> set canonical_keys"
    by (simp_all add: canonical_keys_def)
  from inst have "generate_tips [(''boost_usage'', 1 / 10)] [(''shots'', 2), (''speed'', 1)]
     = (List.map_filter short_advice (map fst [(''shots'', 2::rat), (''speed'', 1)]),
        List.map_filter long_advice (map fst [(''boost_usage'', 1 / 10 :: rat)]))"
    by (rule conjunct1)
  then have run: "generate_tips [(''boost_usage'', 1 / 10)] [(''shots'', 2), (''speed'', 1)]
     = ([''Focus on taking more shots during matches. Position yourself to create shooting opportunities.''],
        [''Continue to refine your boost management. Use efficient routes to maintain high boost levels.''])"
    by (simp add: short_advice_def long_advice_def)
  from inst k1 have a1: "short_advice ''shots'' \<noteq> None" by blast
  from inst k2 have a2: "short_advice ''speed'' = None" by blast
  from run k1 a1 k2 a2 show ?thesis by (intro conjI)
qed

end
